theory Spec2Isabelle
  imports Main
begin

section \<open>Values exchanged by the NER microservice\<close>

text \<open>
  The service of \<^verbatim>\<open>nlp_service/main.py\<close> has two handlers, \<^verbatim>\<open>read_root\<close> and
  \<^verbatim>\<open>extract_entities\<close>, one request schema, \<^verbatim>\<open>TextRequest\<close>, and one module-level
  binding, \<^verbatim>\<open>nlp\<close>. A Python \<^verbatim>\<open>str\<close> is modelled as a \<open>string\<close> in which one
  \<open>char\<close> stands for one code point, so that \<open>length\<close> is Python's \<^verbatim>\<open>len\<close>; a Python
  \<^verbatim>\<open>int\<close> is an \<open>int\<close>; a \<^verbatim>\<open>dict\<close> literal is an association list in the order
  the source writes its keys. JSON numbers with a fraction are left out of \<open>json\<close>.
\<close>

datatype json =
    JNull
  | JBool bool
  | JInt int
  | JStr string
  | JList "json list"
  | JObj "(string \<times> json) list"

text \<open>A raised Python exception, kept by its message.\<close>

datatype exn = Exn string

text \<open>
  What the handler reads of a spaCy entity span (\<^verbatim>\<open>ent.text\<close>, \<^verbatim>\<open>ent.label_\<close>,
  \<^verbatim>\<open>ent.start_char\<close>, \<^verbatim>\<open>ent.end_char\<close>) and of the processed document
  (\<^verbatim>\<open>doc.ents\<close>).
\<close>

record span =
  span_text :: string
  label :: string
  start_char :: int
  end_char :: int

record doc =
  ents :: "span list"

text \<open>
  The loaded pipeline is external to the repository. It is a parameter of the model: a
  function from the text to the document, or to the exception the call raises.
\<close>

type_synonym language = "string \<Rightarrow> exn + doc"

text \<open>The module-level binding of line 10, \<^verbatim>\<open>nlp = spacy.load("en_core_web_sm")\<close>.\<close>

record module_globals =
  nlp :: language

text \<open>The request body schema: \<^verbatim>\<open>class TextRequest(BaseModel): text: str\<close>.\<close>

record TextRequest =
  req_text :: string

datatype validation_error =
    NotAnObject
  | MissingField string
  | WrongType string json

datatype payload =
    Json json
  | ValidationDetail validation_error
  | Unstructured

datatype response = Response (status: nat) (payload: payload)

datatype request = GET_root | POST_ner json

text \<open>
  The calls the program makes to its external collaborators, and the responses it sends,
  in the order they happen: loading the model artifact, invoking the pipeline on a text,
  answering a request.
\<close>

datatype event =
    LoadModel string
  | Invoke string
  | Respond response

section \<open>The handlers\<close>

text \<open>\<^verbatim>\<open>read_root\<close> (lines 13 to 15) returns a dict literal.\<close>

definition read_root :: json where
  "read_root = JObj [(''message'', JStr ''NER microservice is running!'')]"

text \<open>The dict built for one entity by the comprehension of lines 26 to 34.\<close>

definition entity_dict :: "span \<Rightarrow> json" where
  "entity_dict ent =
     JObj [(''text'', JStr (span_text ent)),
           (''label'', JStr (label ent)),
           (''start_char'', JInt (start_char ent)),
           (''end_char'', JInt (end_char ent))]"

text \<open>
  \<^verbatim>\<open>extract_entities\<close> (lines 22 to 36). The call \<^verbatim>\<open>nlp(request.text)\<close> is the only
  statement that can raise; the handler has no \<^verbatim>\<open>try\<close>, so the exception leaves it as
  it is. The second component lists the external calls made.
\<close>

definition extract_entities :: "module_globals \<Rightarrow> TextRequest \<Rightarrow> (exn + json) \<times> event list" where
  "extract_entities g request =
     (case nlp g (req_text request) of
        Inl e \<Rightarrow> (Inl e, [Invoke (req_text request)])
      | Inr d \<Rightarrow>
          (Inr (JObj [(''entities'', JList (map entity_dict (ents d))),
                      (''input'', JStr (req_text request))]),
           [Invoke (req_text request)]))"

section \<open>The HTTP adapter and the process\<close>

text \<open>
  Modelled from the spec: the schema-validation layer (pydantic, behind FastAPI) is not
  part of the repository's sources. The spec, sections 4.1 and 7: the \<^verbatim>\<open>text\<close> field must
  be present and be a string; absence or wrong type fails with status 422 before the
  extractor is invoked. Other fields of the body are not looked at.
\<close>

definition validate_TextRequest :: "json \<Rightarrow> validation_error + TextRequest" where
  "validate_TextRequest body =
     (case body of
        JObj kvs \<Rightarrow>
          (case map_of kvs ''text'' of
             None \<Rightarrow> Inl (MissingField ''text'')
           | Some (JStr s) \<Rightarrow> Inr \<lparr>req_text = s\<rparr>
           | Some v \<Rightarrow> Inl (WrongType ''text'' v))
      | _ \<Rightarrow> Inl NotAnObject)"

text \<open>
  Modelled from the spec: the routing and status mapping of the web framework (FastAPI)
  are not part of the repository's sources. The spec, sections 4.1, 6 and 7: a handler
  that returns answers 200 with the returned value as JSON, a validation error answers
  422 with a structured body, an exception that leaves the handler answers an
  unstructured 500. The two routes are the decorators of lines 13 and 22. The result
  is the response, the external calls made, and the module globals after the request:
  no statement of a handler assigns to a module-level name.
\<close>

fun handle :: "module_globals \<Rightarrow> request \<Rightarrow> response \<times> event list \<times> module_globals" where
  "handle g GET_root = (Response 200 (Json read_root), [], g)"
| "handle g (POST_ner body) =
     (case validate_TextRequest body of
        Inl err \<Rightarrow> (Response 422 (ValidationDetail err), [], g)
      | Inr request \<Rightarrow>
          (case extract_entities g request of
             (Inl e, evs) \<Rightarrow> (Response 500 Unstructured, evs, g)
           | (Inr result, evs) \<Rightarrow> (Response 200 (Json result), evs, g)))"

text \<open>Serving a sequence of requests, one after the other, from the same globals.\<close>

fun serve_all :: "module_globals \<Rightarrow> request list \<Rightarrow> event list \<times> module_globals" where
  "serve_all g [] = ([], g)"
| "serve_all g (r # rs) =
     (case handle g r of
        (resp, evs, g') \<Rightarrow>
          (case serve_all g' rs of
             (trace, g'') \<Rightarrow> (evs @ Respond resp # trace, g'')))"

text \<open>
  Importing the module runs line 10 once. \<^verbatim>\<open>spacy.load\<close> is external: the loader is a
  parameter that gives the pipeline or the exception it raises. Nothing catches that
  exception, so the import fails and no globals exist.
\<close>

definition module_init :: "(string \<Rightarrow> exn + language) \<Rightarrow> (exn + module_globals) \<times> event list" where
  "module_init loader =
     (case loader ''en_core_web_sm'' of
        Inl e \<Rightarrow> (Inl e, [LoadModel ''en_core_web_sm''])
      | Inr m \<Rightarrow> (Inr \<lparr>nlp = m\<rparr>, [LoadModel ''en_core_web_sm'']))"

text \<open>
  The life of the process: the module is imported, then the requests are served. The
  result is the exception that stopped the start, or the globals at the end, with the
  trace of events.
\<close>

definition run_process :: "(string \<Rightarrow> exn + language) \<Rightarrow> request list \<Rightarrow> (exn + module_globals) \<times> event list" where
  "run_process loader reqs =
     (case module_init loader of
        (Inl e, evs) \<Rightarrow> (Inl e, evs)
      | (Inr g, evs) \<Rightarrow>
          (case serve_all g reqs of (trace, g') \<Rightarrow> (Inr g', evs @ trace)))"

section \<open>Reading a response\<close>

fun json_get :: "json \<Rightarrow> string \<Rightarrow> json option" where
  "json_get (JObj kvs) k = map_of kvs k"
| "json_get _ k = None"

fun response_field :: "response \<Rightarrow> string \<Rightarrow> json option" where
  "response_field (Response _ (Json j)) k = json_get j k"
| "response_field _ k = None"

definition response_entities :: "response \<Rightarrow> json list" where
  "response_entities r =
     (case response_field r ''entities'' of Some (JList es) \<Rightarrow> es | _ \<Rightarrow> [])"

text \<open>Python's slice \<^verbatim>\<open>t[a:b]\<close>: a negative bound counts from the end, and both are clamped.\<close>

definition slice_bound :: "nat \<Rightarrow> int \<Rightarrow> nat" where
  "slice_bound n i = (if i < 0 then nat (max 0 (int n + i)) else min n (nat i))"

definition py_slice :: "'a list \<Rightarrow> int \<Rightarrow> int \<Rightarrow> 'a list" where
  "py_slice t a b =
     (let lo = slice_bound (length t) a; hi = slice_bound (length t) b
      in take (hi - lo) (drop lo t))"

text \<open>
  The offset property of one entity of a response on the input \<open>t\<close>:
  \<^verbatim>\<open>0 <= start_char < end_char <= len(t)\<close> and \<^verbatim>\<open>t[start_char:end_char] == text\<close>.
\<close>

definition entity_in_text :: "string \<Rightarrow> json \<Rightarrow> bool" where
  "entity_in_text t e =
     (case (json_get e ''text'', json_get e ''start_char'', json_get e ''end_char'') of
        (Some (JStr x), Some (JInt a), Some (JInt b)) \<Rightarrow>
          0 \<le> a \<and> a < b \<and> b \<le> int (length t) \<and> py_slice t a b = x
      | _ \<Rightarrow> False)"

text \<open>The pair \<open>(start_char, end_char)\<close> of an entity of a response.\<close>

definition entity_bounds :: "json \<Rightarrow> (int \<times> int) option" where
  "entity_bounds e =
     (case (json_get e ''start_char'', json_get e ''end_char'') of
        (Some (JInt a), Some (JInt b)) \<Rightarrow> Some (a, b)
      | _ \<Rightarrow> None)"

section \<open>The extractor as the spec describes it\<close>

text \<open>
  Modelled from the spec: the entity extractor (the spaCy pipeline) is not part of the
  repository's sources. The spec, section 3: a span is a half-open interval of character
  offsets over the input with \<^verbatim>\<open>0 <= start_char < end_char <= length(input_text)\<close>, and
  its text is the substring matched.
\<close>

definition span_in_text :: "string \<Rightarrow> span \<Rightarrow> bool" where
  "span_in_text t s \<longleftrightarrow>
     0 \<le> start_char s \<and> start_char s < end_char s \<and> end_char s \<le> int (length t) \<and>
     span_text s = py_slice t (start_char s) (end_char s)"

text \<open>
  Modelled from the spec: section 3 gives the order of the extractor's spans as the
  order of discovery in the source text, left to right and non-overlapping: a span ends
  no later than the next one starts.
\<close>

fun left_to_right :: "span list \<Rightarrow> bool" where
  "left_to_right [] = True"
| "left_to_right [s] = True"
| "left_to_right (s # s' # rest) = (end_char s \<le> start_char s' \<and> left_to_right (s' # rest))"

section \<open>Sample collaborators\<close>

text \<open>
  Three stand-ins for the external pipeline, used to run the model on concrete inputs:
  one that finds the two entities of the scenario sentence of the spec and nothing
  elsewhere, one that raises on every text, and a loader for each outcome.
\<close>

definition scenario_nlp :: language where
  "scenario_nlp t =
     (if t = ''Barack Obama was born in Hawaii.''
      then Inr \<lparr>ents = [\<lparr>span_text = ''Barack Obama'', label = ''PERSON'', start_char = 0, end_char = 12\<rparr>,
                        \<lparr>span_text = ''Hawaii'', label = ''GPE'', start_char = 25, end_char = 31\<rparr>]\<rparr>
      else Inr \<lparr>ents = []\<rparr>)"

definition raising_nlp :: language where
  "raising_nlp t = Inl (Exn ''ValueError'')"

definition good_loader :: "string \<Rightarrow> exn + language" where
  "good_loader name = (if name = ''en_core_web_sm'' then Inr scenario_nlp else Inl (Exn ''OSError''))"

definition broken_loader :: "string \<Rightarrow> exn + language" where
  "broken_loader name = Inl (Exn ''OSError'')"

text \<open>Whether an event is a load of the model artifact.\<close>

fun is_load :: "event \<Rightarrow> bool" where
  "is_load (LoadModel name) = True"
| "is_load _ = False"

section \<open>What one request does\<close>

lemma handle_POST_text:
  "handle g (POST_ner (JObj [(''text'', JStr t)])) =
     (case nlp g t of
        Inl e \<Rightarrow> (Response 500 Unstructured, [Invoke t], g)
      | Inr d \<Rightarrow>
          (Response 200 (Json (JObj [(''entities'', JList (map entity_dict (ents d))),
                                     (''input'', JStr t)])), [Invoke t], g))"
  by (simp add: validate_TextRequest_def extract_entities_def split: sum.splits)

lemma handle_globals: "snd (snd (handle g r)) = g"
  by (cases r) (simp_all add: extract_entities_def split: sum.splits prod.splits)

lemma handle_no_load: "filter is_load (fst (snd (handle g r))) = []"
  by (cases r) (simp_all add: extract_entities_def split: sum.splits prod.splits)

lemma serve_all_globals: "snd (serve_all g rs) = g"
proof (induction rs)
  case Nil
  show ?case by simp
next
  case (Cons r rs)
  obtain resp evs g' where h: "handle g r = (resp, evs, g')"
    by (cases "handle g r") auto
  with handle_globals [of g r] have "g' = g" by simp
  with h Cons show ?case by (cases "serve_all g rs") simp
qed

lemma serve_all_no_load: "filter is_load (fst (serve_all g rs)) = []"
proof (induction rs)
  case Nil
  show ?case by simp
next
  case (Cons r rs)
  obtain resp evs g' where h: "handle g r = (resp, evs, g')"
    by (cases "handle g r") auto
  with handle_globals [of g r] have g': "g' = g" by simp
  from h handle_no_load [of g r] have "filter is_load evs = []" by simp
  with h g' Cons show ?case by (cases "serve_all g rs") simp
qed

declare handle.simps(2) [simp del]

section \<open>The spans of the extractor and the entities of the response\<close>

lemma entity_bounds_dict: "entity_bounds (entity_dict s) = Some (start_char s, end_char s)"
  by (simp add: entity_bounds_def entity_dict_def)

lemma entity_in_text_dict: "entity_in_text t (entity_dict s) = span_in_text t s"
  by (auto simp add: entity_in_text_def entity_dict_def span_in_text_def)


text \<open>
  Spans that each end no later than the next one starts, and that are not empty, are
  pairwise apart: every span ends no later than every later span starts.
\<close>

lemma left_to_right_sorted:
  "\<forall>s \<in> set xs. start_char s < end_char s \<Longrightarrow> left_to_right xs \<Longrightarrow>
   sorted_wrt (\<lambda>p q. end_char p \<le> start_char q) xs"
proof (induction xs rule: left_to_right.induct)
  case 1
  show ?case by simp
next
  case (2 s)
  show ?case by simp
next
  case (3 s s' rest)
  then have tail: "sorted_wrt (\<lambda>p q. end_char p \<le> start_char q) (s' # rest)"
    and step: "end_char s \<le> start_char s'" and pos: "start_char s' < end_char s'"
    by simp_all
  have "end_char s \<le> start_char q" if "q \<in> set rest" for q
  proof -
    from tail that have "end_char s' \<le> start_char q" by simp
    with step pos show ?thesis by linarith
  qed
  with tail step show ?case by simp
qed

section \<open>The sample pipeline on the scenario sentence\<close>

lemma scenario_doc:
  "nlp \<lparr>nlp = scenario_nlp\<rparr> ''Barack Obama was born in Hawaii.'' =
     Inr \<lparr>ents = [\<lparr>span_text = ''Barack Obama'', label = ''PERSON'', start_char = 0, end_char = 12\<rparr>,
                  \<lparr>span_text = ''Hawaii'', label = ''GPE'', start_char = 25, end_char = 31\<rparr>]\<rparr>"
  by (simp add: scenario_nlp_def)

lemma scenario_spans_in_text:
  "\<forall>s \<in> set (ents \<lparr>ents = [\<lparr>span_text = ''Barack Obama'', label = ''PERSON'', start_char = 0, end_char = 12\<rparr>,
                  \<lparr>span_text = ''Hawaii'', label = ''GPE'', start_char = 25, end_char = 31\<rparr>]\<rparr>).
     span_in_text ''Barack Obama was born in Hawaii.'' s"
  by (simp add: span_in_text_def py_slice_def slice_bound_def)

lemma scenario_left_to_right:
  "left_to_right (ents \<lparr>ents = [\<lparr>span_text = ''Barack Obama'', label = ''PERSON'', start_char = 0, end_char = 12\<rparr>,
                  \<lparr>span_text = ''Hawaii'', label = ''GPE'', start_char = 25, end_char = 31\<rparr>]\<rparr>)"
  by simp

section \<open>The claims\<close>

subsection \<open>C1: the echo of the input\<close>

text \<open>
  Claim C1, as amended. For every string \<open>t\<close> on which the entity extractor returns
  without raising, \<^verbatim>\<open>POST /ner\<close> with body \<^verbatim>\<open>{"text": t}\<close> answers status 200 and the
  \<^verbatim>\<open>input\<close> field of the response is \<open>t\<close>, unmodified.
\<close>

theorem ner_echoes_input:
  assumes "nlp g t = Inr d"
  shows "status (fst (handle g (POST_ner (JObj [(''text'', JStr t)])))) = 200 \<and>
         response_field (fst (handle g (POST_ner (JObj [(''text'', JStr t)])))) ''input'' = Some (JStr t)"
  using assms by (simp add: handle_POST_text)

theorem ner_echoes_input_witness:
  "nlp \<lparr>nlp = scenario_nlp\<rparr> ''Barack Obama was born in Hawaii.'' =
     Inr \<lparr>ents = [\<lparr>span_text = ''Barack Obama'', label = ''PERSON'', start_char = 0, end_char = 12\<rparr>,
                  \<lparr>span_text = ''Hawaii'', label = ''GPE'', start_char = 25, end_char = 31\<rparr>]\<rparr> \<and>
   status (fst (handle \<lparr>nlp = scenario_nlp\<rparr>
     (POST_ner (JObj [(''text'', JStr ''Barack Obama was born in Hawaii.'')])))) = 200 \<and>
   response_field (fst (handle \<lparr>nlp = scenario_nlp\<rparr>
     (POST_ner (JObj [(''text'', JStr ''Barack Obama was born in Hawaii.'')])))) ''input'' =
     Some (JStr ''Barack Obama was born in Hawaii.'')"
proof -
  have h: "nlp \<lparr>nlp = scenario_nlp\<rparr> ''Barack Obama was born in Hawaii.'' =
     Inr \<lparr>ents = [\<lparr>span_text = ''Barack Obama'', label = ''PERSON'', start_char = 0, end_char = 12\<rparr>,
                  \<lparr>span_text = ''Hawaii'', label = ''GPE'', start_char = 25, end_char = 31\<rparr>]\<rparr>"
    by (simp add: scenario_nlp_def)
  from ner_echoes_input [OF h] h show ?thesis by blast
qed

text \<open>
  Claim C1 as stated, status 200 for every string, fails where the extractor raises on
  the text: the handler lets the exception through and the answer is the unstructured
  500, with no \<^verbatim>\<open>input\<close> field.
\<close>

theorem ner_status_200_counterexample:
  "fst (handle \<lparr>nlp = raising_nlp\<rparr> (POST_ner (JObj [(''text'', JStr ''abc'')]))) = Response 500 Unstructured \<and>
   \<not> (status (fst (handle \<lparr>nlp = raising_nlp\<rparr> (POST_ner (JObj [(''text'', JStr ''abc'')])))) = 200 \<and>
      response_field (fst (handle \<lparr>nlp = raising_nlp\<rparr> (POST_ner (JObj [(''text'', JStr ''abc'')])))) ''input'' =
        Some (JStr ''abc''))"
  by (simp add: handle_POST_text raising_nlp_def)

subsection \<open>C2: a body without a string \<^verbatim>\<open>text\<close>\<close>

text \<open>
  Claim C2. For every \<^verbatim>\<open>POST /ner\<close> whose JSON body omits the \<^verbatim>\<open>text\<close> field or
  gives it a value that is not a string, the answer has status 422 (so neither 500 nor
  200) and the extractor is not invoked for that request: the request makes no external
  call, and its response is the same whatever the pipeline is.
\<close>

theorem ner_rejects_bad_text:
  assumes "map_of kvs ''text'' = None \<or> (\<exists>v. map_of kvs ''text'' = Some v \<and> (\<forall>s. v \<noteq> JStr s))"
  shows "status (fst (handle g (POST_ner (JObj kvs)))) = 422 \<and>
         fst (snd (handle g (POST_ner (JObj kvs)))) = [] \<and>
         fst (handle g (POST_ner (JObj kvs))) = fst (handle g' (POST_ner (JObj kvs)))"
proof -
  from assms have "\<exists>err. validate_TextRequest (JObj kvs) = Inl err"
    by (auto simp add: validate_TextRequest_def split: option.splits json.splits)
  then show ?thesis by (auto simp add: handle.simps)
qed

theorem ner_rejects_bad_text_witness:
  "map_of [(''text'', JInt 123)] ''text'' = Some (JInt 123) \<and>
   map_of [(''note'', JStr ''hello'')] ''text'' = None \<and>
   status (fst (handle \<lparr>nlp = scenario_nlp\<rparr> (POST_ner (JObj [(''text'', JInt 123)])))) = 422 \<and>
   fst (snd (handle \<lparr>nlp = scenario_nlp\<rparr> (POST_ner (JObj [(''text'', JInt 123)])))) = [] \<and>
   status (fst (handle \<lparr>nlp = scenario_nlp\<rparr> (POST_ner (JObj [(''note'', JStr ''hello'')])))) = 422 \<and>
   fst (snd (handle \<lparr>nlp = scenario_nlp\<rparr> (POST_ner (JObj [(''note'', JStr ''hello'')])))) = []"
proof -
  have a: "map_of [(''text'', JInt 123)] ''text'' = None \<or>
           (\<exists>v. map_of [(''text'', JInt 123)] ''text'' = Some v \<and> (\<forall>s. v \<noteq> JStr s))"
    by simp
  have b: "map_of [(''note'', JStr ''hello'')] ''text'' = None \<or>
           (\<exists>v. map_of [(''note'', JStr ''hello'')] ''text'' = Some v \<and> (\<forall>s. v \<noteq> JStr s))"
    by simp
  from ner_rejects_bad_text [OF a, of "\<lparr>nlp = scenario_nlp\<rparr>" "\<lparr>nlp = scenario_nlp\<rparr>"]
       ner_rejects_bad_text [OF b, of "\<lparr>nlp = scenario_nlp\<rparr>" "\<lparr>nlp = scenario_nlp\<rparr>"]
  show ?thesis by simp
qed

subsection \<open>C3: the offsets of every entity\<close>

text \<open>
  Claim C3. For every successful \<^verbatim>\<open>POST /ner\<close> on the input \<open>t\<close> and every entity
  \<open>e\<close> of the returned \<^verbatim>\<open>entities\<close> list, \<^verbatim>\<open>0 <= e.start_char < e.end_char <= len(t)\<close>
  and \<^verbatim>\<open>t[e.start_char:e.end_char] == e.text\<close>. The extractor is the one the spec
  describes: the spans it returns on \<open>t\<close> lie in \<open>t\<close>.
\<close>

theorem ner_entities_in_text:
  assumes "nlp g t = Inr d" and "\<forall>s \<in> set (ents d). span_in_text t s"
  shows "status (fst (handle g (POST_ner (JObj [(''text'', JStr t)])))) = 200 \<and>
         (\<forall>e \<in> set (response_entities (fst (handle g (POST_ner (JObj [(''text'', JStr t)]))))).
            entity_in_text t e)"
  using assms by (auto simp add: handle_POST_text response_entities_def entity_in_text_dict)

theorem ner_entities_in_text_witness:
  "status (fst (handle \<lparr>nlp = scenario_nlp\<rparr>
     (POST_ner (JObj [(''text'', JStr ''Barack Obama was born in Hawaii.'')])))) = 200 \<and>
   response_entities (fst (handle \<lparr>nlp = scenario_nlp\<rparr>
     (POST_ner (JObj [(''text'', JStr ''Barack Obama was born in Hawaii.'')])))) =
     [JObj [(''text'', JStr ''Barack Obama''), (''label'', JStr ''PERSON''),
            (''start_char'', JInt 0), (''end_char'', JInt 12)],
      JObj [(''text'', JStr ''Hawaii''), (''label'', JStr ''GPE''),
            (''start_char'', JInt 25), (''end_char'', JInt 31)]] \<and>
   entity_in_text ''Barack Obama was born in Hawaii.''
     (JObj [(''text'', JStr ''Barack Obama''), (''label'', JStr ''PERSON''),
            (''start_char'', JInt 0), (''end_char'', JInt 12)]) \<and>
   entity_in_text ''Barack Obama was born in Hawaii.''
     (JObj [(''text'', JStr ''Hawaii''), (''label'', JStr ''GPE''),
            (''start_char'', JInt 25), (''end_char'', JInt 31)])"
proof -
  have ents: "response_entities (fst (handle \<lparr>nlp = scenario_nlp\<rparr>
     (POST_ner (JObj [(''text'', JStr ''Barack Obama was born in Hawaii.'')])))) =
     [JObj [(''text'', JStr ''Barack Obama''), (''label'', JStr ''PERSON''),
            (''start_char'', JInt 0), (''end_char'', JInt 12)],
      JObj [(''text'', JStr ''Hawaii''), (''label'', JStr ''GPE''),
            (''start_char'', JInt 25), (''end_char'', JInt 31)]]"
    by (simp add: handle_POST_text scenario_nlp_def response_entities_def entity_dict_def)
  from ner_entities_in_text [OF scenario_doc scenario_spans_in_text] ents
  show ?thesis by simp
qed

subsection \<open>C4: the order of the entities\<close>

text \<open>
  Claim C4. For every successful \<^verbatim>\<open>POST /ner\<close> response, the \<^verbatim>\<open>entities\<close> sequence is
  sorted by \<^verbatim>\<open>start_char\<close> in ascending order and no two entity spans overlap: every
  entity has its two offsets, and each entity's \<^verbatim>\<open>end_char\<close> is at most the
  \<^verbatim>\<open>start_char\<close> of every later entity. The extractor is the one the spec describes:
  its spans lie in the text and come left to right.
\<close>

theorem ner_entities_ordered:
  assumes "nlp g t = Inr d" and "\<forall>s \<in> set (ents d). span_in_text t s" and "left_to_right (ents d)"
  shows "\<exists>bs. map entity_bounds (response_entities (fst (handle g (POST_ner (JObj [(''text'', JStr t)]))))) =
                map Some bs \<and>
              sorted (map fst bs) \<and> sorted_wrt (\<lambda>p q. snd p \<le> fst q) bs"
proof -
  let ?bs = "map (\<lambda>s. (start_char s, end_char s)) (ents d)"
  from assms(2) have pos: "\<forall>s \<in> set (ents d). start_char s < end_char s"
    by (simp add: span_in_text_def)
  from left_to_right_sorted [OF pos assms(3)]
  have apart: "sorted_wrt (\<lambda>p q. end_char p \<le> start_char q) (ents d)" .
  have "sorted_wrt (\<lambda>p q. start_char p \<le> start_char q) (ents d)"
  proof (rule sorted_wrt_mono_rel [OF _ apart])
    fix p q
    assume "p \<in> set (ents d)" and "q \<in> set (ents d)" and "end_char p \<le> start_char q"
    with pos show "start_char p \<le> start_char q" by fastforce
  qed
  then have s1: "sorted (map fst ?bs)"
    by (simp add: sorted_wrt_map comp_def)
  from apart have s2: "sorted_wrt (\<lambda>p q. snd p \<le> fst q) ?bs"
    by (simp add: sorted_wrt_map)
  from assms(1) have "map entity_bounds (response_entities (fst (handle g (POST_ner (JObj [(''text'', JStr t)]))))) =
                map Some ?bs"
    by (simp add: handle_POST_text response_entities_def entity_bounds_dict comp_def)
  with s1 s2 show ?thesis by blast
qed

theorem ner_entities_ordered_witness:
  "map entity_bounds (response_entities (fst (handle \<lparr>nlp = scenario_nlp\<rparr>
     (POST_ner (JObj [(''text'', JStr ''Barack Obama was born in Hawaii.'')]))))) =
     [Some (0, 12), Some (25, 31)] \<and>
   (\<exists>bs. map entity_bounds (response_entities (fst (handle \<lparr>nlp = scenario_nlp\<rparr>
       (POST_ner (JObj [(''text'', JStr ''Barack Obama was born in Hawaii.'')]))))) = map Some bs \<and>
     sorted (map fst bs) \<and> sorted_wrt (\<lambda>p q. snd p \<le> fst q) bs)"
proof -
  have "map entity_bounds (response_entities (fst (handle \<lparr>nlp = scenario_nlp\<rparr>
     (POST_ner (JObj [(''text'', JStr ''Barack Obama was born in Hawaii.'')]))))) =
     [Some (0, 12), Some (25, 31)]"
    by (simp add: handle_POST_text scenario_nlp_def response_entities_def entity_bounds_dict)
  with ner_entities_ordered [OF scenario_doc scenario_spans_in_text scenario_left_to_right]
  show ?thesis by blast
qed

subsection \<open>C5: the liveness route\<close>

text \<open>
  Claim C5. \<^verbatim>\<open>GET /\<close> always answers status 200 with the payload \<^verbatim>\<open>{"message": m}\<close>
  for one fixed non-empty string \<open>m\<close>; it makes no external call and leaves the module
  globals as they were; and the answer is the same after any history of requests.
\<close>

theorem read_root_fixed_message:
  "\<exists>m. m \<noteq> '''' \<and>
     (\<forall>g history. handle (snd (serve_all g history)) GET_root =
        (Response 200 (Json (JObj [(''message'', JStr m)])), [], g))"
proof -
  have "handle (snd (serve_all g history)) GET_root =
        (Response 200 (Json (JObj [(''message'', JStr ''NER microservice is running!'')])), [], g)"
    for g history
    by (simp add: serve_all_globals read_root_def)
  then show ?thesis by blast
qed

subsection \<open>C6: a failure of the extractor\<close>

text \<open>
  Claim C6. For every \<^verbatim>\<open>POST /ner\<close> request on which the extractor raises, the handler
  neither catches nor translates the exception: the same exception leaves the handler,
  the extractor is not called again, and the answer is the unstructured status 500.
\<close>

theorem ner_extractor_failure_propagates:
  assumes "validate_TextRequest body = Inr request" and "nlp g (req_text request) = Inl e"
  shows "fst (extract_entities g request) = Inl e \<and>
         handle g (POST_ner body) = (Response 500 Unstructured, [Invoke (req_text request)], g)"
  using assms by (simp add: handle.simps extract_entities_def)

theorem ner_extractor_failure_propagates_witness:
  "validate_TextRequest (JObj [(''text'', JStr ''abc'')]) = Inr \<lparr>req_text = ''abc''\<rparr> \<and>
   nlp \<lparr>nlp = raising_nlp\<rparr> ''abc'' = Inl (Exn ''ValueError'') \<and>
   fst (extract_entities \<lparr>nlp = raising_nlp\<rparr> \<lparr>req_text = ''abc''\<rparr>) = Inl (Exn ''ValueError'') \<and>
   handle \<lparr>nlp = raising_nlp\<rparr> (POST_ner (JObj [(''text'', JStr ''abc'')])) =
     (Response 500 Unstructured, [Invoke ''abc''], \<lparr>nlp = raising_nlp\<rparr>)"
proof -
  have a: "validate_TextRequest (JObj [(''text'', JStr ''abc'')]) = Inr \<lparr>req_text = ''abc''\<rparr>"
    by (simp add: validate_TextRequest_def)
  have b: "nlp \<lparr>nlp = raising_nlp\<rparr> (req_text \<lparr>req_text = ''abc''\<rparr>) = Inl (Exn ''ValueError'')"
    by (simp add: raising_nlp_def)
  from ner_extractor_failure_propagates [OF a b] a b show ?thesis by simp
qed

subsection \<open>C7: loading the model\<close>

text \<open>
  Claim C7. The model is loaded exactly once, at process start, before any request is
  served: the trace of the process holds one load event, of \<^verbatim>\<open>en_core_web_sm\<close>, and it
  is its first event. If the load fails, the process does not start and no request is
  ever served: the trace is that one load, with no second attempt and no response.
\<close>

theorem model_loaded_once_at_startup:
  "filter is_load (snd (run_process loader reqs)) = [LoadModel ''en_core_web_sm''] \<and>
   take 1 (snd (run_process loader reqs)) = [LoadModel ''en_core_web_sm''] \<and>
   (\<forall>e. loader ''en_core_web_sm'' = Inl e \<longrightarrow>
      run_process loader reqs = (Inl e, [LoadModel ''en_core_web_sm'']))"
proof (cases "loader ''en_core_web_sm''")
  case (Inl e)
  then show ?thesis by (simp add: run_process_def module_init_def)
next
  case (Inr m)
  obtain trace g' where "serve_all \<lparr>nlp = m\<rparr> reqs = (trace, g')"
    by (cases "serve_all \<lparr>nlp = m\<rparr> reqs") auto
  with Inr serve_all_no_load [of "\<lparr>nlp = m\<rparr>" reqs] show ?thesis
    by (simp add: run_process_def module_init_def)
qed

theorem model_loaded_once_at_startup_witness:
  "broken_loader ''en_core_web_sm'' = Inl (Exn ''OSError'') \<and>
   run_process broken_loader [GET_root, POST_ner (JObj [(''text'', JStr ''abc'')])] =
     (Inl (Exn ''OSError''), [LoadModel ''en_core_web_sm'']) \<and>
   filter is_load (snd (run_process good_loader [GET_root, POST_ner (JObj [(''text'', JStr ''abc'')])])) =
     [LoadModel ''en_core_web_sm''] \<and>
   snd (run_process good_loader [GET_root, POST_ner (JObj [(''text'', JStr ''abc'')])]) =
     [LoadModel ''en_core_web_sm'',
      Respond (Response 200 (Json (JObj [(''message'', JStr ''NER microservice is running!'')]))),
      Invoke ''abc'',
      Respond (Response 200 (Json (JObj [(''entities'', JList []), (''input'', JStr ''abc'')])))]"
proof -
  have a: "broken_loader ''en_core_web_sm'' = Inl (Exn ''OSError'')"
    by (simp add: broken_loader_def)
  have t: "snd (run_process good_loader [GET_root, POST_ner (JObj [(''text'', JStr ''abc'')])]) =
     [LoadModel ''en_core_web_sm'',
      Respond (Response 200 (Json (JObj [(''message'', JStr ''NER microservice is running!'')]))),
      Invoke ''abc'',
      Respond (Response 200 (Json (JObj [(''entities'', JList []), (''input'', JStr ''abc'')])))]"
    by (simp add: run_process_def module_init_def good_loader_def handle_POST_text scenario_nlp_def
        read_root_def)
  from model_loaded_once_at_startup [of broken_loader "[GET_root, POST_ner (JObj [(''text'', JStr ''abc'')])]"]
       model_loaded_once_at_startup [of good_loader "[GET_root, POST_ner (JObj [(''text'', JStr ''abc'')])]"]
       a t
  show ?thesis by blast
qed

subsection \<open>C8: the state of the process\<close>


subsection \<open>C9: the entities are the image of the extractor's spans\<close>

text \<open>
  Claim C9. For every input text on which the extractor returns, the \<^verbatim>\<open>entities\<close> list
  of the response is the element-wise image of \<^verbatim>\<open>doc.ents\<close>: it has the same length and
  order, and its element at each position is exactly the four fields \<^verbatim>\<open>text\<close>,
  \<^verbatim>\<open>label\<close>, \<^verbatim>\<open>start_char\<close>, \<^verbatim>\<open>end_char\<close> of the span at that position; no entity is
  filtered out, added or reordered.
\<close>

theorem ner_entities_are_image:
  assumes "nlp g t = Inr d"
  shows "response_entities (fst (handle g (POST_ner (JObj [(''text'', JStr t)])))) = map entity_dict (ents d) \<and>
         length (response_entities (fst (handle g (POST_ner (JObj [(''text'', JStr t)]))))) = length (ents d) \<and>
         (\<forall>i < length (ents d).
            response_entities (fst (handle g (POST_ner (JObj [(''text'', JStr t)])))) ! i =
              JObj [(''text'', JStr (span_text (ents d ! i))),
                    (''label'', JStr (label (ents d ! i))),
                    (''start_char'', JInt (start_char (ents d ! i))),
                    (''end_char'', JInt (end_char (ents d ! i)))])"
  using assms by (simp add: handle_POST_text response_entities_def entity_dict_def)

theorem ner_entities_are_image_witness:
  "response_entities (fst (handle \<lparr>nlp = scenario_nlp\<rparr>
     (POST_ner (JObj [(''text'', JStr ''Barack Obama was born in Hawaii.'')])))) =
     [JObj [(''text'', JStr ''Barack Obama''), (''label'', JStr ''PERSON''),
            (''start_char'', JInt 0), (''end_char'', JInt 12)],
      JObj [(''text'', JStr ''Hawaii''), (''label'', JStr ''GPE''),
            (''start_char'', JInt 25), (''end_char'', JInt 31)]] \<and>
   length (response_entities (fst (handle \<lparr>nlp = scenario_nlp\<rparr>
     (POST_ner (JObj [(''text'', JStr ''Barack Obama was born in Hawaii.'')]))))) = 2"
  using ner_entities_are_image [OF scenario_doc]
  by (simp add: entity_dict_def)

subsection \<open>C10: the empty text\<close>




end
